theory Spec2Isabelle
  imports Main
begin

section \<open>PoET block verifier: data model\<close>

text \<open>
  The embedding follows \<^verbatim>\<open>PoetBlockVerifier.verify_block\<close> of
  \<^verbatim>\<open>poet_block_verifier.py\<close>. Identifiers, keys, hashes and payloads are strings.
  Only the attributes that the method reads are fields of the records.
\<close>

record block_header =
  hdr_previous_block_id :: string
  signer_pubkey :: string
  consensus :: string

record block_wrapper =
  previous_block_id :: string
  header :: block_header
  state_root_hash :: string

record signup_info =
  poet_public_key :: string

record validator_info =
  vi_name :: string
  vi_id :: string
  vi_signup_info :: signup_info

text \<open>
  Python exceptions, up to what the handlers of the method can tell apart: the class
  \<^verbatim>\<open>KeyError\<close> (with its subclasses), the class \<^verbatim>\<open>ValueError\<close> (with its
  subclasses), and every other exception. Each carries its message (\<^verbatim>\<open>str(e)\<close>).
\<close>

datatype exn = KeyError string | ValueError string | OtherException string

datatype level = DEBUG | WARNING | ERROR

type_synonym log_record = "level \<times> string"

type_synonym block_cache_t = "string \<rightharpoonup> block_wrapper"

text \<open>
  The objects handed to the verifier are shared with the rest of the process. Whatever
  they hold (the blocks of the cache, the state store, the enclave modules already
  initialised) is the shared state \<open>'w\<close>. A call of one of their methods starts in a
  shared state, returns a value or raises, and leaves a shared state behind.
\<close>

type_synonym ('a, 'w) method_call = "'w \<Rightarrow> (exn + 'a) \<times> 'w"

text \<open>
  The object itself: the three attributes set by \<^verbatim>\<open>__init__\<close>. The block cache is
  given by its \<^verbatim>\<open>__getitem__\<close>, the state view factory by its \<^verbatim>\<open>create_view\<close>.
\<close>

record ('sv, 'w) poet_block_verifier =
  block_cache :: "string \<Rightarrow> (block_wrapper, 'w) method_call"
  state_view_factory :: "string \<Rightarrow> ('sv, 'w) method_call"
  data_dir :: string

text \<open>
  The collaborators that the method calls and that live in other modules: the enclave
  factory, the validator registry view (built over a state view), the helpers of
  \<^verbatim>\<open>utils\<close>, the \<^verbatim>\<open>check_valid\<close> method of a wait certificate and the constant
  \<^verbatim>\<open>WaitTimer.certificate_sample_length\<close>. The builder of the certificate list is
  handed the block cache of the verifier.
\<close>

record ('sv, 'em, 'wc, 'w) collaborators =
  get_poet_enclave_module :: "'sv \<Rightarrow> ('em, 'w) method_call"
  get_validators :: "'sv \<Rightarrow> (validator_info list, 'w) method_call"
  get_validator_info :: "'sv \<Rightarrow> string \<Rightarrow> (validator_info, 'w) method_call"
  build_certificate_list ::
    "block_header \<Rightarrow> (string \<Rightarrow> (block_wrapper, 'w) method_call) \<Rightarrow> 'em \<Rightarrow> nat
       \<Rightarrow> ('wc list, 'w) method_call"
  deserialize_wait_certificate :: "block_wrapper \<Rightarrow> 'em \<Rightarrow> ('wc, 'w) method_call"
  check_valid :: "'wc \<Rightarrow> 'em \<Rightarrow> 'wc list \<Rightarrow> string \<Rightarrow> (unit, 'w) method_call"
  certificate_sample_length :: nat

text \<open>
  The state that a call of \<^verbatim>\<open>verify_block\<close> can see and change: the verifier object,
  the shared state, and the records that the module's logger has received so far.
\<close>

record ('sv, 'w) state =
  self :: "('sv, 'w) poet_block_verifier"
  world :: 'w
  log_records :: "log_record list"

section \<open>The method\<close>

definition emit :: "level \<Rightarrow> string \<Rightarrow> ('sv, 'w) state \<Rightarrow> ('sv, 'w) state" where
  "emit lvl msg s = s\<lparr>log_records := log_records s @ [(lvl, msg)]\<rparr>"

text \<open>A method call made by \<^verbatim>\<open>verify_block\<close>: it runs in the shared state of \<open>s\<close>.\<close>

definition call :: "('a, 'w) method_call \<Rightarrow> ('sv, 'w) state \<Rightarrow> (exn + 'a) \<times> ('sv, 'w) state" where
  "call f s = (fst (f (world s)), s\<lparr>world := snd (f (world s))\<rparr>)"

text \<open>Sequencing: an exception ends the sequence, a value goes to the next statement.\<close>

definition and_then ::
  "(exn + 'a) \<times> 's \<Rightarrow> ('a \<Rightarrow> 's \<Rightarrow> (exn + 'b) \<times> 's) \<Rightarrow> (exn + 'b) \<times> 's" where
  "and_then m k = (case fst m of Inl e \<Rightarrow> (Inl e, snd m) | Inr x \<Rightarrow> k x (snd m))"

text \<open>Python's \<^verbatim>\<open>s[:8]\<close> and \<^verbatim>\<open>s[-8:]\<close>; neither raises on a short string.\<close>

definition first8 :: "string \<Rightarrow> string" where
  "first8 s = take 8 s"

definition last8 :: "string \<Rightarrow> string" where
  "last8 s = drop (length s - 8) s"

definition signer_message :: "validator_info \<Rightarrow> string" where
  "signer_message vi =
     ''Block Signer Name='' @ vi_name vi @ '', ID='' @ first8 (vi_id vi) @ ''...'' @
     last8 (vi_id vi) @ '', PoET public key='' @
     first8 (poet_public_key (vi_signup_info vi)) @ ''...'' @
     last8 (poet_public_key (vi_signup_info vi))"

text \<open>
  Lines 71 to 76: the lookup of the previous block. Only the \<^verbatim>\<open>KeyError\<close> of the
  cache is caught and leaves \<^verbatim>\<open>None\<close>; any other exception of the cache leaves the
  method.
\<close>

fun except_KeyError_pass :: "exn + block_wrapper \<Rightarrow> exn + block_wrapper option" where
  "except_KeyError_pass (Inr previous_block) = Inr (Some previous_block)"
| "except_KeyError_pass (Inl (KeyError m)) = Inr None"
| "except_KeyError_pass (Inl (ValueError m)) = Inl (ValueError m)"
| "except_KeyError_pass (Inl (OtherException m)) = Inl (OtherException m)"

definition lookup_previous_block ::
  "block_wrapper \<Rightarrow> ('sv, 'w) state \<Rightarrow> (exn + block_wrapper option) \<times> ('sv, 'w) state" where
  "lookup_previous_block block_wrapper s =
     (except_KeyError_pass
        (fst (call (block_cache (self s) (previous_block_id block_wrapper)) s)),
      snd (call (block_cache (self s) (previous_block_id block_wrapper)) s))"

text \<open>Lines 82 to 85: the choice of the state root hash.\<close>

definition context_state_root_hash :: "block_wrapper option \<Rightarrow> block_wrapper \<Rightarrow> string" where
  "context_state_root_hash previous_block block_wrapper =
     (case previous_block of
        Some p \<Rightarrow> state_root_hash p
      | None \<Rightarrow> state_root_hash block_wrapper)"

text \<open>Lines 113 to 118: the list of certificates leading up to the block.\<close>

definition assemble_certificates ::
  "('sv, 'em, 'wc, 'w) collaborators \<Rightarrow> ('sv, 'w) poet_block_verifier \<Rightarrow> block_wrapper \<Rightarrow> 'em
     \<Rightarrow> ('wc list, 'w) method_call" where
  "assemble_certificates E slf block_wrapper poet_enclave_module =
     build_certificate_list E (header block_wrapper) (block_cache slf)
       poet_enclave_module (certificate_sample_length E)"

text \<open>
  Lines 94 to 129, the body of the \<^verbatim>\<open>try\<close>: the first call that raises ends it with
  that exception.
\<close>

definition verification_attempt ::
  "('sv, 'em, 'wc, 'w) collaborators \<Rightarrow> block_wrapper \<Rightarrow> 'sv \<Rightarrow> 'em \<Rightarrow> ('sv, 'w) state
     \<Rightarrow> (exn + unit) \<times> ('sv, 'w) state" where
  "verification_attempt E block_wrapper state_view poet_enclave_module s =
     and_then
       (call (get_validator_info E state_view (signer_pubkey (header block_wrapper))) s)
       (\<lambda>vi s1.
     and_then
       (call (assemble_certificates E (self s1) block_wrapper poet_enclave_module)
          (emit DEBUG (signer_message vi) s1))
       (\<lambda>certificates s2.
     and_then
       (call (deserialize_wait_certificate E block_wrapper poet_enclave_module) s2)
       (\<lambda>wait_certificate s3.
     and_then
       (call (check_valid E wait_certificate poet_enclave_module certificates
                (poet_public_key (vi_signup_info vi))) s3)
       (\<lambda>u s4. (Inr (), s4)))))"

text \<open>Lines 130 to 137 and 142: the two handlers, and the final \<^verbatim>\<open>return True\<close>.\<close>

fun handle_attempt :: "(exn + unit) \<times> ('sv, 'w) state \<Rightarrow> (exn + bool) \<times> ('sv, 'w) state" where
  "handle_attempt (Inl (KeyError m), s) =
     (Inr False,
      emit ERROR
        ''Attempted to verify block from validator with no validator registry entry'' s)"
| "handle_attempt (Inl (ValueError m), s) =
     (Inr True,
      emit WARNING ''We will accept for now''
        (emit ERROR (''Wait certificate is not valid: '' @ m) s))"
| "handle_attempt (Inl (OtherException m), s) = (Inl (OtherException m), s)"
| "handle_attempt (Inr u, s) = (Inr True, s)"

text \<open>Lines 88 to 142: the method once the state view has been created.\<close>

definition verify_with_view ::
  "('sv, 'em, 'wc, 'w) collaborators \<Rightarrow> block_wrapper \<Rightarrow> 'sv \<Rightarrow> ('sv, 'w) state
     \<Rightarrow> (exn + bool) \<times> ('sv, 'w) state" where
  "verify_with_view E block_wrapper state_view s =
     and_then (call (get_poet_enclave_module E state_view) s)
       (\<lambda>poet_enclave_module s1.
     and_then (call (get_validators E state_view) s1)
       (\<lambda>validators s2.
          if length validators > 0 then
            handle_attempt
              (verification_attempt E block_wrapper state_view poet_enclave_module s2)
          else
            (Inr True,
             emit WARNING ''Block accepted by default because no validators registered''
               s2)))"

text \<open>
  \<^verbatim>\<open>verify_block\<close>: the outcome is the returned Boolean (\<open>Inr\<close>) or the exception
  that leaves the method (\<open>Inl\<close>), together with the state after the call.
\<close>

definition verify_block ::
  "('sv, 'em, 'wc, 'w) collaborators \<Rightarrow> block_wrapper \<Rightarrow> ('sv, 'w) state
     \<Rightarrow> (exn + bool) \<times> ('sv, 'w) state" where
  "verify_block E block_wrapper s =
     and_then (lookup_previous_block block_wrapper s)
       (\<lambda>previous_block s1.
     and_then
       (call (state_view_factory (self s1)
                (context_state_root_hash previous_block block_wrapper)) s1)
       (\<lambda>state_view s2. verify_with_view E block_wrapper state_view s2))"

section \<open>The certificate history builder\<close>

text \<open>
  Modelled from the spec: \<^verbatim>\<open>utils.build_certificate_list\<close> is called by
  \<^verbatim>\<open>verify_block\<close> and its module is not among the sources. Section 3 of the
  specification: the block cache is a read-only mapping from block identifier to block,
  which may not contain a requested predecessor. Section 4.2: the builder walks the
  ancestor chain starting at the block referenced by the previous block id of the anchor
  header, deserializes each ancestor's embedded wait certificate through the attestation
  handle and appends it to the sample, most recent first; it stops when the maximum
  count has been collected, or at the chain's start: no further predecessor in the
  cache, or a predecessor whose payload contains no certificate. The parameter
  \<open>payload_certificate\<close> is that deserialization, \<open>None\<close> for a payload without
  certificate.
\<close>

definition cache_mapping ::
  "(string \<Rightarrow> (block_wrapper, 'w) method_call) \<Rightarrow> 'w \<Rightarrow> block_cache_t" where
  "cache_mapping cache w block_id =
     (case fst (cache block_id w) of Inr b \<Rightarrow> Some b | Inl e \<Rightarrow> None)"

fun certificate_walk ::
  "('em \<Rightarrow> block_wrapper \<Rightarrow> 'wc option) \<Rightarrow> 'em \<Rightarrow> block_cache_t \<Rightarrow> string \<Rightarrow> nat
     \<Rightarrow> 'wc list" where
  "certificate_walk payload_certificate em cache block_id 0 = []"
| "certificate_walk payload_certificate em cache block_id (Suc n) =
     (case cache block_id of
        None \<Rightarrow> []
      | Some b \<Rightarrow>
          (case payload_certificate em b of
             None \<Rightarrow> []
           | Some c \<Rightarrow>
               c # certificate_walk payload_certificate em cache (previous_block_id b) n))"

definition spec_build_certificate_list ::
  "('em \<Rightarrow> block_wrapper \<Rightarrow> 'wc option) \<Rightarrow> block_header
     \<Rightarrow> (string \<Rightarrow> (block_wrapper, 'w) method_call) \<Rightarrow> 'em \<Rightarrow> nat
     \<Rightarrow> ('wc list, 'w) method_call" where
  "spec_build_certificate_list payload_certificate anchor_header cache em max_count w =
     (Inr (certificate_walk payload_certificate em (cache_mapping cache w)
             (hdr_previous_block_id anchor_header) max_count),
      w)"

text \<open>
  The ancestors available from a block id: the blocks met when following previous block
  ids through the cache, at most \<open>k\<close> of them.
\<close>

fun ancestors :: "block_cache_t \<Rightarrow> string \<Rightarrow> nat \<Rightarrow> block_wrapper list" where
  "ancestors cache block_id 0 = []"
| "ancestors cache block_id (Suc k) =
     (case cache block_id of
        None \<Rightarrow> []
      | Some b \<Rightarrow> b # ancestors cache (previous_block_id b) k)"

section \<open>Read-only collaborators\<close>

text \<open>
  The constructor's docstring calls the objects it is passed read-only. A verifier and
  its collaborators are read-only when no call of theirs changes the shared state.
\<close>

definition read_only ::
  "('sv, 'em, 'wc, 'w) collaborators \<Rightarrow> ('sv, 'w) poet_block_verifier \<Rightarrow> bool" where
  "read_only E slf \<longleftrightarrow>
     (\<forall>k w. snd (block_cache slf k w) = w) \<and>
     (\<forall>h w. snd (state_view_factory slf h w) = w) \<and>
     (\<forall>sv w. snd (get_poet_enclave_module E sv w) = w) \<and>
     (\<forall>sv w. snd (get_validators E sv w) = w) \<and>
     (\<forall>sv k w. snd (get_validator_info E sv k w) = w) \<and>
     (\<forall>h c em n w. snd (build_certificate_list E h c em n w) = w) \<and>
     (\<forall>b em w. snd (deserialize_wait_certificate E b em w) = w) \<and>
     (\<forall>wc em cs k w. snd (check_valid E wc em cs k w) = w)"

text \<open>
  What a stretch of the method may do to the state: keep the verifier object, append to
  the log, and, when \<open>ro\<close> holds, keep the shared state.
\<close>

definition framed :: "bool \<Rightarrow> ('sv, 'w) state \<Rightarrow> ('sv, 'w) state \<Rightarrow> bool" where
  "framed ro s s' \<longleftrightarrow>
     self s' = self s \<and>
     (\<exists>new. log_records s' = log_records s @ new) \<and>
     (ro \<longrightarrow> world s' = world s)"

section \<open>Concrete inputs\<close>

definition returns :: "'a \<Rightarrow> ('a, 'w) method_call" where
  "returns x w = (Inr x, w)"

definition raises :: "exn \<Rightarrow> ('a, 'w) method_call" where
  "raises e w = (Inl e, w)"

text \<open>A cache that is a plain dict: a missing key raises \<^verbatim>\<open>KeyError\<close>.\<close>

definition dict_getitem :: "block_cache_t \<Rightarrow> string \<Rightarrow> (block_wrapper, 'w) method_call" where
  "dict_getitem d k = (case d k of None \<Rightarrow> raises (KeyError k) | Some b \<Rightarrow> returns b)"

definition blk :: "string \<Rightarrow> string \<Rightarrow> string \<Rightarrow> string \<Rightarrow> block_wrapper" where
  "blk prev signer payload root =
     \<lparr>previous_block_id = prev,
      header = \<lparr>hdr_previous_block_id = prev, signer_pubkey = signer, consensus = payload\<rparr>,
      state_root_hash = root\<rparr>"

definition alice :: validator_info where
  "alice = \<lparr>vi_name = ''alice'', vi_id = ''0123456789abcdef'',
            vi_signup_info = \<lparr>poet_public_key = ''fedcba9876543210''\<rparr>\<rparr>"

text \<open>
  The shared state of the examples counts the enclave modules initialised so far. The
  verifier's cache holds one block, \<open>''b1''\<close>, and its factory hands out the root hash
  itself as the state view.
\<close>

definition verifier0 :: "(string, nat) poet_block_verifier" where
  "verifier0 =
     \<lparr>block_cache = dict_getitem [''b1'' \<mapsto> blk ''b0'' ''pk-alice'' ''cert-1'' ''root-1''],
      state_view_factory = (\<lambda>h. returns h),
      data_dir = ''/var/lib/poet''\<rparr>"

definition state0 :: "(string, nat) state" where
  "state0 = \<lparr>self = verifier0, world = 0, log_records = []\<rparr>"

text \<open>
  Collaborators over these: the registry of the view \<open>''root-1''\<close> holds \<open>alice\<close>
  under the key \<open>''pk-alice''\<close>, every other registry is empty; a payload deserializes
  to itself unless it is \<open>''garbled''\<close>, which raises a \<^verbatim>\<open>ValueError\<close>; a certificate is
  valid unless it is \<open>''cert-too-fast''\<close>.
\<close>

definition env0 :: "(string, unit, string, nat) collaborators" where
  "env0 =
     \<lparr>get_poet_enclave_module = (\<lambda>sv. returns ()),
      get_validators = (\<lambda>sv. if sv = ''root-1'' then returns [alice] else returns []),
      get_validator_info =
        (\<lambda>sv k. if sv = ''root-1'' \<and> k = ''pk-alice'' then returns alice
                 else raises (KeyError k)),
      build_certificate_list = (\<lambda>h c em n. returns []),
      deserialize_wait_certificate =
        (\<lambda>b em. if consensus (header b) = ''garbled''
                 then raises (ValueError ''cannot deserialize'')
                 else returns (consensus (header b))),
      check_valid =
        (\<lambda>wc em cs k. if wc = ''cert-too-fast''
                       then raises (ValueError ''too fast'') else returns ()),
      certificate_sample_length = 50\<rparr>"

text \<open>
  A builder that looks the predecessor up in the cache it is handed without catching the
  exception of a missing key.
\<close>

definition env_cache_miss :: "(string, unit, string, nat) collaborators" where
  "env_cache_miss =
     env0\<lparr>build_certificate_list :=
            (\<lambda>h c em n w. case fst (c (hdr_previous_block_id h) w) of
                             Inl e \<Rightarrow> (Inl e, w)
                           | Inr b \<Rightarrow> (Inr [consensus (header b)], w))\<rparr>"

text \<open>An enclave factory that fails with an exception of its own.\<close>

definition env_no_enclave :: "(string, unit, string, nat) collaborators" where
  "env_no_enclave =
     env0\<lparr>get_poet_enclave_module := (\<lambda>sv. raises (OtherException ''enclave unavailable''))\<rparr>"

text \<open>An enclave factory that initialises its module on first use.\<close>

definition env_lazy_enclave :: "(string, unit, string, nat) collaborators" where
  "env_lazy_enclave =
     env0\<lparr>get_poet_enclave_module := (\<lambda>sv w. (Inr (), if w = 0 then 1 else w))\<rparr>"

text \<open>A state view factory that serves one root hash only.\<close>

definition serving_only :: "string \<Rightarrow> (string, nat) state" where
  "serving_only root =
     state0\<lparr>self := verifier0\<lparr>state_view_factory :=
       (\<lambda>h. if h = root then returns h else raises (OtherException ''unknown state root''))\<rparr>\<rparr>"

text \<open>
  A chain of three cached blocks, \<open>''c3''\<close> back to \<open>''c1''\<close>, whose first block carries
  no certificate, and the builder of the specification over it, with a sample length of
  two: every non-empty payload is its own certificate.
\<close>

definition chain_cache :: block_cache_t where
  "chain_cache =
     [''c1'' \<mapsto> blk ''c0'' ''pk-alice'' [] ''root-1'',
      ''c2'' \<mapsto> blk ''c1'' ''pk-alice'' ''cert-2'' ''root-1'',
      ''c3'' \<mapsto> blk ''c2'' ''pk-alice'' ''cert-3'' ''root-1'']"

definition verifier_chain :: "(string, nat) poet_block_verifier" where
  "verifier_chain =
     \<lparr>block_cache = dict_getitem chain_cache, state_view_factory = (\<lambda>h. returns h),
      data_dir = ''/var/lib/poet''\<rparr>"

definition payload_cert :: "unit \<Rightarrow> block_wrapper \<Rightarrow> string option" where
  "payload_cert em b =
     (if consensus (header b) = [] then None else Some (consensus (header b)))"

definition env_spec :: "(string, unit, string, nat) collaborators" where
  "env_spec =
     env0\<lparr>build_certificate_list := spec_build_certificate_list payload_cert,
          certificate_sample_length := 2\<rparr>"

section \<open>Stepping through the method\<close>

lemmas method_defs =
  verify_block_def verify_with_view_def verification_attempt_def lookup_previous_block_def
  context_state_root_hash_def assemble_certificates_def call_def and_then_def emit_def

lemmas input_defs =
  env0_def state0_def verifier0_def blk_def dict_getitem_def returns_def raises_def

lemma and_then_Inr: "and_then (Inr x, s) k = k x s"
  by (simp add: and_then_def)

lemma and_then_Inl: "and_then (Inl e, s) k = (Inl e, s)"
  by (simp add: and_then_def)

lemma lookup_present:
  "call (block_cache (self s) (previous_block_id bw)) s = (Inr p, s1) \<Longrightarrow>
   lookup_previous_block bw s = (Inr (Some p), s1)"
  by (simp add: lookup_previous_block_def)

lemma lookup_absent:
  "call (block_cache (self s) (previous_block_id bw)) s = (Inl (KeyError m), s1) \<Longrightarrow>
   lookup_previous_block bw s = (Inr None, s1)"
  by (simp add: lookup_previous_block_def)

lemma verify_with_view_resolved:
  assumes "call (get_poet_enclave_module E sv) s2 = (Inr em, s3)"
    and "call (get_validators E sv) s3 = (Inr vs, s4)"
  shows "verify_with_view E bw sv s2 =
           (if vs \<noteq> [] then handle_attempt (verification_attempt E bw sv em s4)
            else (Inr True,
                  emit WARNING
                    ''Block accepted by default because no validators registered'' s4))"
  using assms by (simp add: verify_with_view_def and_then_Inr)

lemma verify_block_resolved:
  assumes "lookup_previous_block bw s = (Inr prev, s1)"
    and "call (state_view_factory (self s1) (context_state_root_hash prev bw)) s1 = (Inr sv, s2)"
  shows "verify_block E bw s = verify_with_view E bw sv s2"
  using assms by (simp add: verify_block_def and_then_Inr)

lemma verify_block_registered:
  assumes "lookup_previous_block bw s = (Inr prev, s1)"
    and "call (state_view_factory (self s1) (context_state_root_hash prev bw)) s1 = (Inr sv, s2)"
    and "call (get_poet_enclave_module E sv) s2 = (Inr em, s3)"
    and "call (get_validators E sv) s3 = (Inr vs, s4)"
    and "vs \<noteq> []"
  shows "verify_block E bw s = handle_attempt (verification_attempt E bw sv em s4)"
  using verify_block_resolved [OF assms(1,2), of E]
    verify_with_view_resolved [OF assms(3,4), of bw] assms(5)
  by simp

lemma handle_attempt_KeyError:
  "fst a = Inl (KeyError m) \<Longrightarrow>
   handle_attempt a =
     (Inr False,
      emit ERROR
        ''Attempted to verify block from validator with no validator registry entry''
        (snd a))"
  by (cases a) simp

lemma handle_attempt_ValueError:
  "fst a = Inl (ValueError m) \<Longrightarrow>
   handle_attempt a =
     (Inr True,
      emit WARNING ''We will accept for now''
        (emit ERROR (''Wait certificate is not valid: '' @ m) (snd a)))"
  by (cases a) simp

lemma handle_attempt_raises_iff:
  "fst (handle_attempt a) = Inl e \<longleftrightarrow> fst a = Inl e \<and> (\<exists>m. e = OtherException m)"
proof (cases a)
  case (Pair r s)
  show ?thesis
  proof (cases r)
    case (Inl x)
    with Pair show ?thesis by (cases x) auto
  next
    case (Inr u)
    with Pair show ?thesis by simp
  qed
qed

text \<open>The candidates and the states of the examples that follow.\<close>

lemma state0_calls:
  "lookup_previous_block (blk ''b1'' signer payload root) state0 =
     (Inr (Some (blk ''b0'' ''pk-alice'' ''cert-1'' ''root-1'')), state0)"
  "lookup_previous_block (blk ''b7'' signer payload root) state0 = (Inr None, state0)"
  "lookup_previous_block (blk ''b9'' signer payload root) state0 = (Inr None, state0)"
  "call (state_view_factory (self state0) h) state0 = (Inr h, state0)"
  by (simp_all add: method_defs input_defs)

lemma env0_calls:
  "call (get_poet_enclave_module env0 sv) state0 = (Inr (), state0)"
  "call (get_validators env0 ''root-1'') state0 = (Inr [alice], state0)"
  "call (get_validators env0 ''root-9'') state0 = (Inr [], state0)"
  "call (get_validator_info env0 ''root-1'' ''pk-alice'') state0 = (Inr alice, state0)"
  "call (get_validator_info env0 ''root-1'' ''pk-mallory'') state0 =
     (Inl (KeyError ''pk-mallory''), state0)"
  by (simp_all add: method_defs input_defs)

section \<open>Properties\<close>

text \<open>
  C3, as the code has it: when the state view has been created, the enclave module for
  it has been obtained and the registry of that view lists no validator,
  \<^verbatim>\<open>verify_block\<close> returns True whatever the candidate carries and whatever the other
  collaborators would do, and it logs the warning that the block was accepted by
  default.
\<close>

theorem empty_registry_accepts:
  assumes "lookup_previous_block bw s = (Inr prev, s1)"
    and "call (state_view_factory (self s1) (context_state_root_hash prev bw)) s1 = (Inr sv, s2)"
    and "call (get_poet_enclave_module E sv) s2 = (Inr em, s3)"
    and "call (get_validators E sv) s3 = (Inr [], s4)"
  shows "verify_block E bw s =
           (Inr True,
            emit WARNING ''Block accepted by default because no validators registered'' s4)"
  using verify_block_resolved [OF assms(1,2), of E]
    verify_with_view_resolved [OF assms(3,4), of bw]
  by simp

theorem empty_registry_accepts_witness:
  "call (get_validators env0 ''root-9'') state0 = (Inr [], state0) \<and>
   verify_block env0 (blk ''b9'' ''pk-bob'' ''garbled'' ''root-9'') state0 =
     (Inr True,
      emit WARNING ''Block accepted by default because no validators registered'' state0)"
proof -
  let ?bw = "blk ''b9'' ''pk-bob'' ''garbled'' ''root-9''"
  have h1: "lookup_previous_block ?bw state0 = (Inr None, state0)"
    by (rule state0_calls)
  have h2: "call (state_view_factory (self state0) (context_state_root_hash None ?bw)) state0
              = (Inr ''root-9'', state0)"
    by (simp add: state0_calls context_state_root_hash_def) (simp add: blk_def)
  have h3: "call (get_poet_enclave_module env0 ''root-9'') state0 = (Inr (), state0)"
    by (rule env0_calls)
  have h4: "call (get_validators env0 ''root-9'') state0 = (Inr [], state0)"
    by (rule env0_calls)
  from empty_registry_accepts [OF h1 h2 h3 h4] h4 show ?thesis
    by simp
qed

text \<open>
  C3 as stated fails: the registry of the view \<open>''root-9''\<close> is empty, the enclave
  factory, which is called before the registry is looked at, raises, and the exception
  leaves \<^verbatim>\<open>verify_block\<close>.
\<close>

theorem empty_registry_raises_counterexample:
  "fst (call (get_validators env_no_enclave ''root-9'') state0) = Inr [] \<and>
   fst (verify_block env_no_enclave (blk ''b9'' ''pk-bob'' ''cert-9'' ''root-9'') state0)
     = Inl (OtherException ''enclave unavailable'') \<and>
   fst (verify_block env_no_enclave (blk ''b9'' ''pk-bob'' ''cert-9'' ''root-9'') state0)
     \<noteq> Inr True"
  by (simp add: method_defs input_defs env_no_enclave_def)

text \<open>
  C4, as the code has it: when the state view has been created, the enclave module for
  it has been obtained, the registry of that view is not empty and the lookup of the
  candidate header's signer public key finds no entry (it raises \<^verbatim>\<open>KeyError\<close>),
  \<^verbatim>\<open>verify_block\<close> returns False and reports, at error level, the block of a validator
  with no validator registry entry.
\<close>

theorem unregistered_proposer_rejected:
  assumes "lookup_previous_block bw s = (Inr prev, s1)"
    and "call (state_view_factory (self s1) (context_state_root_hash prev bw)) s1 = (Inr sv, s2)"
    and "call (get_poet_enclave_module E sv) s2 = (Inr em, s3)"
    and "call (get_validators E sv) s3 = (Inr vs, s4)"
    and "vs \<noteq> []"
    and "call (get_validator_info E sv (signer_pubkey (header bw))) s4 = (Inl (KeyError m), s5)"
  shows "verify_block E bw s =
           (Inr False,
            emit ERROR
              ''Attempted to verify block from validator with no validator registry entry''
              s5)"
proof -
  from assms(6) have "verification_attempt E bw sv em s4 = (Inl (KeyError m), s5)"
    by (simp add: verification_attempt_def and_then_Inl)
  with verify_block_registered [OF assms(1-5)] show ?thesis
    by simp
qed

theorem unregistered_proposer_rejected_witness:
  "call (get_validators env0 ''root-1'') state0 = (Inr [alice], state0) \<and>
   call (get_validator_info env0 ''root-1''
           (signer_pubkey (header (blk ''b1'' ''pk-mallory'' ''cert-2'' ''root-2'')))) state0
     = (Inl (KeyError ''pk-mallory''), state0) \<and>
   verify_block env0 (blk ''b1'' ''pk-mallory'' ''cert-2'' ''root-2'') state0 =
     (Inr False,
      emit ERROR
        ''Attempted to verify block from validator with no validator registry entry''
        state0)"
proof -
  let ?bw = "blk ''b1'' ''pk-mallory'' ''cert-2'' ''root-2''"
  let ?p = "blk ''b0'' ''pk-alice'' ''cert-1'' ''root-1''"
  have h1: "lookup_previous_block ?bw state0 = (Inr (Some ?p), state0)"
    by (rule state0_calls)
  have h2: "call (state_view_factory (self state0) (context_state_root_hash (Some ?p) ?bw))
              state0 = (Inr ''root-1'', state0)"
    by (simp add: state0_calls context_state_root_hash_def) (simp add: blk_def)
  have h3: "call (get_poet_enclave_module env0 ''root-1'') state0 = (Inr (), state0)"
    by (rule env0_calls)
  have h4: "call (get_validators env0 ''root-1'') state0 = (Inr [alice], state0)"
    by (rule env0_calls)
  have h5: "[alice] \<noteq> []"
    by simp
  have h6: "call (get_validator_info env0 ''root-1'' (signer_pubkey (header ?bw))) state0
              = (Inl (KeyError ''pk-mallory''), state0)"
    by (simp add: blk_def env0_calls)
  from unregistered_proposer_rejected [OF h1 h2 h3 h4 h5 h6] h4 h6 show ?thesis
    by simp
qed

text \<open>
  C4 as stated fails: the registry of the view \<open>''root-1''\<close> is not empty and holds no
  entry for the signer's key, the enclave factory raises, and the exception leaves
  \<^verbatim>\<open>verify_block\<close>.
\<close>

theorem unregistered_proposer_raises_counterexample:
  "fst (call (get_validators env_no_enclave ''root-1'') state0) = Inr [alice] \<and>
   fst (call (get_validator_info env_no_enclave ''root-1''
                (signer_pubkey (header (blk ''b1'' ''pk-mallory'' ''cert-2'' ''root-2''))))
          state0)
     = Inl (KeyError ''pk-mallory'') \<and>
   fst (verify_block env_no_enclave (blk ''b1'' ''pk-mallory'' ''cert-2'' ''root-2'') state0)
     = Inl (OtherException ''enclave unavailable'') \<and>
   fst (verify_block env_no_enclave (blk ''b1'' ''pk-mallory'' ''cert-2'' ''root-2'') state0)
     \<noteq> Inr False"
  by (simp add: method_defs input_defs env_no_enclave_def)

section \<open>The decision inside a non-empty registry\<close>

lemma attempt_raises_iff:
  "fst (verification_attempt E bw sv em s) = Inl e \<longleftrightarrow>
     fst (call (get_validator_info E sv (signer_pubkey (header bw))) s) = Inl e \<or>
     (\<exists>vi s1. call (get_validator_info E sv (signer_pubkey (header bw))) s = (Inr vi, s1) \<and>
        (fst (call (assemble_certificates E (self s1) bw em)
                (emit DEBUG (signer_message vi) s1)) = Inl e \<or>
         (\<exists>cs s2. call (assemble_certificates E (self s1) bw em)
                     (emit DEBUG (signer_message vi) s1) = (Inr cs, s2) \<and>
            (fst (call (deserialize_wait_certificate E bw em) s2) = Inl e \<or>
             (\<exists>wc s3. call (deserialize_wait_certificate E bw em) s2 = (Inr wc, s3) \<and>
                fst (call (check_valid E wc em cs (poet_public_key (vi_signup_info vi))) s3)
                  = Inl e)))))"
  unfolding verification_attempt_def and_then_def
  by (auto simp: prod_eq_iff split: sum.splits)

text \<open>
  C2: when the candidate's wait certificate deserializes and its \<^verbatim>\<open>check_valid\<close> fails
  with a validation error (\<^verbatim>\<open>ValueError\<close>), \<^verbatim>\<open>verify_block\<close> returns True; the log
  receives the error record of the invalid certificate and then the warning that the
  block is accepted for now.
\<close>

theorem invalid_certificate_accepted:
  assumes "lookup_previous_block bw s = (Inr prev, s1)"
    and "call (state_view_factory (self s1) (context_state_root_hash prev bw)) s1 = (Inr sv, s2)"
    and "call (get_poet_enclave_module E sv) s2 = (Inr em, s3)"
    and "call (get_validators E sv) s3 = (Inr vs, s4)"
    and "vs \<noteq> []"
    and "call (get_validator_info E sv (signer_pubkey (header bw))) s4 = (Inr vi, s5)"
    and "call (assemble_certificates E (self s5) bw em) (emit DEBUG (signer_message vi) s5)
           = (Inr cs, s6)"
    and "call (deserialize_wait_certificate E bw em) s6 = (Inr wc, s7)"
    and "call (check_valid E wc em cs (poet_public_key (vi_signup_info vi))) s7
           = (Inl (ValueError m), s8)"
  shows "verify_block E bw s =
           (Inr True,
            emit WARNING ''We will accept for now''
              (emit ERROR (''Wait certificate is not valid: '' @ m) s8))"
proof -
  from assms(6-9)
  have "verification_attempt E bw sv em s4 = (Inl (ValueError m), s8)"
    by (simp add: verification_attempt_def and_then_Inr and_then_Inl)
  with verify_block_registered [OF assms(1-5)] show ?thesis
    by simp
qed

theorem invalid_certificate_accepted_witness:
  "call (deserialize_wait_certificate env0
           (blk ''b1'' ''pk-alice'' ''cert-too-fast'' ''root-2'') ()) 
        (emit DEBUG (signer_message alice) state0)
     = (Inr ''cert-too-fast'', emit DEBUG (signer_message alice) state0) \<and>
   call (check_valid env0 ''cert-too-fast'' () [] (poet_public_key (vi_signup_info alice)))
        (emit DEBUG (signer_message alice) state0)
     = (Inl (ValueError ''too fast''), emit DEBUG (signer_message alice) state0) \<and>
   verify_block env0 (blk ''b1'' ''pk-alice'' ''cert-too-fast'' ''root-2'') state0 =
     (Inr True,
      emit WARNING ''We will accept for now''
        (emit ERROR (''Wait certificate is not valid: '' @ ''too fast'')
           (emit DEBUG (signer_message alice) state0)))"
proof -
  let ?bw = "blk ''b1'' ''pk-alice'' ''cert-too-fast'' ''root-2''"
  let ?p = "blk ''b0'' ''pk-alice'' ''cert-1'' ''root-1''"
  let ?s = "emit DEBUG (signer_message alice) state0"
  have h1: "lookup_previous_block ?bw state0 = (Inr (Some ?p), state0)"
    by (rule state0_calls)
  have h2: "call (state_view_factory (self state0) (context_state_root_hash (Some ?p) ?bw))
              state0 = (Inr ''root-1'', state0)"
    by (simp add: state0_calls context_state_root_hash_def) (simp add: blk_def)
  have h3: "call (get_poet_enclave_module env0 ''root-1'') state0 = (Inr (), state0)"
    by (rule env0_calls)
  have h4: "call (get_validators env0 ''root-1'') state0 = (Inr [alice], state0)"
    by (rule env0_calls)
  have h5: "[alice] \<noteq> []"
    by simp
  have h6: "call (get_validator_info env0 ''root-1'' (signer_pubkey (header ?bw))) state0
              = (Inr alice, state0)"
    by (simp add: blk_def env0_calls)
  have h7: "call (assemble_certificates env0 (self state0) ?bw ()) ?s = (Inr [], ?s)"
    by (simp add: method_defs input_defs)
  have h8: "call (deserialize_wait_certificate env0 ?bw ()) ?s = (Inr ''cert-too-fast'', ?s)"
    by (simp add: method_defs input_defs)
  have h9: "call (check_valid env0 ''cert-too-fast'' () []
                    (poet_public_key (vi_signup_info alice))) ?s
              = (Inl (ValueError ''too fast''), ?s)"
    by (simp add: method_defs input_defs)
  from invalid_certificate_accepted [OF h1 h2 h3 h4 h5 h6 h7 h8 h9] h8 h9 show ?thesis
    by simp
qed

text \<open>
  C8: with a non-empty registry, a \<^verbatim>\<open>ValueError\<close> raised by any call of the body of the
  \<^verbatim>\<open>try\<close> (the registry lookup, the building of the certificate list, the
  deserialization of the candidate's wait certificate or \<^verbatim>\<open>check_valid\<close>) makes
  \<^verbatim>\<open>verify_block\<close> return True, with the error record of the invalid certificate and
  the warning of the acceptance in the log.
\<close>

theorem value_error_anywhere_accepted:
  assumes "lookup_previous_block bw s = (Inr prev, s1)"
    and "call (state_view_factory (self s1) (context_state_root_hash prev bw)) s1 = (Inr sv, s2)"
    and "call (get_poet_enclave_module E sv) s2 = (Inr em, s3)"
    and "call (get_validators E sv) s3 = (Inr vs, s4)"
    and "vs \<noteq> []"
    and "fst (call (get_validator_info E sv (signer_pubkey (header bw))) s4) = Inl (ValueError m) \<or>
         (\<exists>vi s5. call (get_validator_info E sv (signer_pubkey (header bw))) s4 = (Inr vi, s5) \<and>
            (fst (call (assemble_certificates E (self s5) bw em)
                    (emit DEBUG (signer_message vi) s5)) = Inl (ValueError m) \<or>
             (\<exists>cs s6. call (assemble_certificates E (self s5) bw em)
                         (emit DEBUG (signer_message vi) s5) = (Inr cs, s6) \<and>
                (fst (call (deserialize_wait_certificate E bw em) s6) = Inl (ValueError m) \<or>
                 (\<exists>wc s7. call (deserialize_wait_certificate E bw em) s6 = (Inr wc, s7) \<and>
                    fst (call (check_valid E wc em cs (poet_public_key (vi_signup_info vi)))
                           s7) = Inl (ValueError m))))))"
  shows "fst (verify_block E bw s) = Inr True \<and>
         snd (verify_block E bw s) =
           emit WARNING ''We will accept for now''
             (emit ERROR (''Wait certificate is not valid: '' @ m)
                (snd (verification_attempt E bw sv em s4)))"
proof -
  from assms(6) have "fst (verification_attempt E bw sv em s4) = Inl (ValueError m)"
    by (simp only: attempt_raises_iff)
  then have "handle_attempt (verification_attempt E bw sv em s4) =
      (Inr True,
       emit WARNING ''We will accept for now''
             (emit ERROR (''Wait certificate is not valid: '' @ m)
                (snd (verification_attempt E bw sv em s4))))"
    by (rule handle_attempt_ValueError)
  with verify_block_registered [OF assms(1-5)] show ?thesis
    by simp
qed

theorem value_error_anywhere_accepted_witness:
  "fst (call (deserialize_wait_certificate env0
                (blk ''b1'' ''pk-alice'' ''garbled'' ''root-2'') ())
          (emit DEBUG (signer_message alice) state0))
     = Inl (ValueError ''cannot deserialize'') \<and>
   fst (verify_block env0 (blk ''b1'' ''pk-alice'' ''garbled'' ''root-2'') state0) = Inr True \<and>
   snd (verify_block env0 (blk ''b1'' ''pk-alice'' ''garbled'' ''root-2'') state0) =
     emit WARNING ''We will accept for now''
       (emit ERROR (''Wait certificate is not valid: '' @ ''cannot deserialize'')
          (snd (verification_attempt env0 (blk ''b1'' ''pk-alice'' ''garbled'' ''root-2'')
                  ''root-1'' () state0)))"
proof -
  let ?bw = "blk ''b1'' ''pk-alice'' ''garbled'' ''root-2''"
  let ?p = "blk ''b0'' ''pk-alice'' ''cert-1'' ''root-1''"
  let ?s = "emit DEBUG (signer_message alice) state0"
  let ?e = "Inl (ValueError ''cannot deserialize'')"
  have h1: "lookup_previous_block ?bw state0 = (Inr (Some ?p), state0)"
    by (rule state0_calls)
  have h2: "call (state_view_factory (self state0) (context_state_root_hash (Some ?p) ?bw))
              state0 = (Inr ''root-1'', state0)"
    by (simp add: state0_calls context_state_root_hash_def) (simp add: blk_def)
  have h3: "call (get_poet_enclave_module env0 ''root-1'') state0 = (Inr (), state0)"
    by (rule env0_calls)
  have h4: "call (get_validators env0 ''root-1'') state0 = (Inr [alice], state0)"
    by (rule env0_calls)
  have h5: "[alice] \<noteq> []"
    by simp
  have g1: "call (get_validator_info env0 ''root-1'' (signer_pubkey (header ?bw))) state0
              = (Inr alice, state0)"
    by (simp add: blk_def env0_calls)
  have g2: "call (assemble_certificates env0 (self state0) ?bw ()) ?s = (Inr [], ?s)"
    by (simp add: method_defs input_defs)
  have g3: "fst (call (deserialize_wait_certificate env0 ?bw ()) ?s) = ?e"
    by (simp add: method_defs input_defs)
  from g1 g2 g3
  have h6: "fst (call (get_validator_info env0 ''root-1'' (signer_pubkey (header ?bw))) state0)
              = ?e \<or>
         (\<exists>vi s5. call (get_validator_info env0 ''root-1'' (signer_pubkey (header ?bw))) state0
                     = (Inr vi, s5) \<and>
            (fst (call (assemble_certificates env0 (self s5) ?bw ())
                    (emit DEBUG (signer_message vi) s5)) = ?e \<or>
             (\<exists>cs s6. call (assemble_certificates env0 (self s5) ?bw ())
                         (emit DEBUG (signer_message vi) s5) = (Inr cs, s6) \<and>
                (fst (call (deserialize_wait_certificate env0 ?bw ()) s6) = ?e \<or>
                 (\<exists>wc s7. call (deserialize_wait_certificate env0 ?bw ()) s6 = (Inr wc, s7) \<and>
                    fst (call (check_valid env0 wc () cs (poet_public_key (vi_signup_info vi)))
                           s7) = ?e)))))"
    by simp
  from value_error_anywhere_accepted [OF h1 h2 h3 h4 h5 h6] g3 show ?thesis
    by simp
qed

text \<open>
  C9: with a non-empty registry, a \<^verbatim>\<open>KeyError\<close> raised by any call of the body of the
  \<^verbatim>\<open>try\<close> (the registry lookup of the proposer's key, but also the building of the
  certificate list, the deserialization or \<^verbatim>\<open>check_valid\<close>) makes \<^verbatim>\<open>verify_block\<close>
  return False with the report of a validator with no validator registry entry.
\<close>

theorem key_error_anywhere_rejected:
  assumes "lookup_previous_block bw s = (Inr prev, s1)"
    and "call (state_view_factory (self s1) (context_state_root_hash prev bw)) s1 = (Inr sv, s2)"
    and "call (get_poet_enclave_module E sv) s2 = (Inr em, s3)"
    and "call (get_validators E sv) s3 = (Inr vs, s4)"
    and "vs \<noteq> []"
    and "fst (call (get_validator_info E sv (signer_pubkey (header bw))) s4) = Inl (KeyError m) \<or>
         (\<exists>vi s5. call (get_validator_info E sv (signer_pubkey (header bw))) s4 = (Inr vi, s5) \<and>
            (fst (call (assemble_certificates E (self s5) bw em)
                    (emit DEBUG (signer_message vi) s5)) = Inl (KeyError m) \<or>
             (\<exists>cs s6. call (assemble_certificates E (self s5) bw em)
                         (emit DEBUG (signer_message vi) s5) = (Inr cs, s6) \<and>
                (fst (call (deserialize_wait_certificate E bw em) s6) = Inl (KeyError m) \<or>
                 (\<exists>wc s7. call (deserialize_wait_certificate E bw em) s6 = (Inr wc, s7) \<and>
                    fst (call (check_valid E wc em cs (poet_public_key (vi_signup_info vi)))
                           s7) = Inl (KeyError m))))))"
  shows "fst (verify_block E bw s) = Inr False \<and>
         snd (verify_block E bw s) =
           emit ERROR
             ''Attempted to verify block from validator with no validator registry entry''
             (snd (verification_attempt E bw sv em s4))"
proof -
  from assms(6) have "fst (verification_attempt E bw sv em s4) = Inl (KeyError m)"
    by (simp only: attempt_raises_iff)
  then have "handle_attempt (verification_attempt E bw sv em s4) =
      (Inr False,
       emit ERROR
             ''Attempted to verify block from validator with no validator registry entry''
             (snd (verification_attempt E bw sv em s4)))"
    by (rule handle_attempt_KeyError)
  with verify_block_registered [OF assms(1-5)] show ?thesis
    by simp
qed

theorem key_error_anywhere_rejected_witness:
  "call (get_validator_info env_cache_miss ''root-1''
           (signer_pubkey (header (blk ''b7'' ''pk-alice'' ''cert-8'' ''root-1'')))) state0
     = (Inr alice, state0) \<and>
   fst (call (assemble_certificates env_cache_miss (self state0)
                (blk ''b7'' ''pk-alice'' ''cert-8'' ''root-1'') ())
          (emit DEBUG (signer_message alice) state0)) = Inl (KeyError ''b7'') \<and>
   fst (verify_block env_cache_miss (blk ''b7'' ''pk-alice'' ''cert-8'' ''root-1'') state0)
     = Inr False \<and>
   snd (verify_block env_cache_miss (blk ''b7'' ''pk-alice'' ''cert-8'' ''root-1'') state0) =
     emit ERROR
       ''Attempted to verify block from validator with no validator registry entry''
       (snd (verification_attempt env_cache_miss
               (blk ''b7'' ''pk-alice'' ''cert-8'' ''root-1'') ''root-1'' () state0))"
proof -
  let ?bw = "blk ''b7'' ''pk-alice'' ''cert-8'' ''root-1''"
  let ?E = env_cache_miss
  let ?s = "emit DEBUG (signer_message alice) state0"
  let ?e = "Inl (KeyError ''b7'')"
  have h1: "lookup_previous_block ?bw state0 = (Inr None, state0)"
    by (rule state0_calls)
  have h2: "call (state_view_factory (self state0) (context_state_root_hash None ?bw)) state0
              = (Inr ''root-1'', state0)"
    by (simp add: state0_calls context_state_root_hash_def) (simp add: blk_def)
  have h3: "call (get_poet_enclave_module ?E ''root-1'') state0 = (Inr (), state0)"
    by (simp add: method_defs input_defs env_cache_miss_def)
  have h4: "call (get_validators ?E ''root-1'') state0 = (Inr [alice], state0)"
    by (simp add: method_defs input_defs env_cache_miss_def)
  have h5: "[alice] \<noteq> []"
    by simp
  have g1: "call (get_validator_info ?E ''root-1'' (signer_pubkey (header ?bw))) state0
              = (Inr alice, state0)"
    by (simp add: method_defs input_defs env_cache_miss_def)
  have g2: "fst (call (assemble_certificates ?E (self state0) ?bw ()) ?s) = ?e"
    by (simp add: method_defs input_defs env_cache_miss_def)
  from g1 g2
  have h6: "fst (call (get_validator_info ?E ''root-1'' (signer_pubkey (header ?bw))) state0)
              = ?e \<or>
         (\<exists>vi s5. call (get_validator_info ?E ''root-1'' (signer_pubkey (header ?bw))) state0
                     = (Inr vi, s5) \<and>
            (fst (call (assemble_certificates ?E (self s5) ?bw ())
                    (emit DEBUG (signer_message vi) s5)) = ?e \<or>
             (\<exists>cs s6. call (assemble_certificates ?E (self s5) ?bw ())
                         (emit DEBUG (signer_message vi) s5) = (Inr cs, s6) \<and>
                (fst (call (deserialize_wait_certificate ?E ?bw ()) s6) = ?e \<or>
                 (\<exists>wc s7. call (deserialize_wait_certificate ?E ?bw ()) s6 = (Inr wc, s7) \<and>
                    fst (call (check_valid ?E wc () cs (poet_public_key (vi_signup_info vi)))
                           s7) = ?e)))))"
    by simp
  from key_error_anywhere_rejected [OF h1 h2 h3 h4 h5 h6] g1 g2 show ?thesis
    by simp
qed

section \<open>Exceptions that leave the method\<close>

lemma and_then_raises_iff:
  "fst (and_then m k) = Inl e \<longleftrightarrow>
     fst m = Inl e \<or> (\<exists>x. fst m = Inr x \<and> fst (k x (snd m)) = Inl e)"
  by (cases "fst m") (simp_all add: and_then_def)

lemma except_KeyError_pass_raises_iff:
  "except_KeyError_pass r = Inl e \<longleftrightarrow> r = Inl e \<and> (\<nexists>m. e = KeyError m)"
proof (cases r)
  case (Inl x)
  then show ?thesis by (cases x) auto
next
  case (Inr b)
  then show ?thesis by simp
qed

lemma lookup_raises_iff:
  "fst (lookup_previous_block bw s) = Inl e \<longleftrightarrow>
     fst (call (block_cache (self s) (previous_block_id bw)) s) = Inl e \<and>
     (\<nexists>m. e = KeyError m)"
  by (simp add: lookup_previous_block_def except_KeyError_pass_raises_iff)

lemma verify_with_view_raises_iff:
  "fst (verify_with_view E bw sv s2) = Inl e \<longleftrightarrow>
     fst (call (get_poet_enclave_module E sv) s2) = Inl e \<or>
     (\<exists>em s3. call (get_poet_enclave_module E sv) s2 = (Inr em, s3) \<and>
        (fst (call (get_validators E sv) s3) = Inl e \<or>
         (\<exists>vs s4. call (get_validators E sv) s3 = (Inr vs, s4) \<and> vs \<noteq> [] \<and>
            fst (verification_attempt E bw sv em s4) = Inl e \<and>
            (\<exists>m. e = OtherException m))))"
  unfolding verify_with_view_def and_then_raises_iff
  by (auto simp: prod_eq_iff handle_attempt_raises_iff)

text \<open>
  C6, as the code has it: \<^verbatim>\<open>verify_block\<close> raises to its caller exactly when the
  block cache raises an exception other than \<^verbatim>\<open>KeyError\<close>, when \<^verbatim>\<open>create_view\<close>,
  the enclave factory or \<^verbatim>\<open>get_validators\<close> raises (whatever the exception), or when,
  the registry being non-empty, a call of the body of the \<^verbatim>\<open>try\<close> raises an exception
  that is neither a \<^verbatim>\<open>KeyError\<close> nor a \<^verbatim>\<open>ValueError\<close>; the exception that leaves is
  the collaborator's own. In every other case, the \<^verbatim>\<open>KeyError\<close> of a missing
  predecessor included, the call returns a Boolean.
\<close>

theorem verify_block_raises_iff:
  "fst (verify_block E bw s) = Inl e \<longleftrightarrow>
     (fst (call (block_cache (self s) (previous_block_id bw)) s) = Inl e \<and>
      (\<nexists>m. e = KeyError m)) \<or>
     (\<exists>prev s1. lookup_previous_block bw s = (Inr prev, s1) \<and>
        (fst (call (state_view_factory (self s1) (context_state_root_hash prev bw)) s1)
           = Inl e \<or>
         (\<exists>sv s2. call (state_view_factory (self s1) (context_state_root_hash prev bw)) s1
                     = (Inr sv, s2) \<and>
            (fst (call (get_poet_enclave_module E sv) s2) = Inl e \<or>
             (\<exists>em s3. call (get_poet_enclave_module E sv) s2 = (Inr em, s3) \<and>
                (fst (call (get_validators E sv) s3) = Inl e \<or>
                 (\<exists>vs s4. call (get_validators E sv) s3 = (Inr vs, s4) \<and> vs \<noteq> [] \<and>
                    fst (verification_attempt E bw sv em s4) = Inl e \<and>
                    (\<exists>m. e = OtherException m))))))))"
  unfolding verify_block_def and_then_raises_iff lookup_raises_iff verify_with_view_raises_iff
  by (auto simp: prod_eq_iff)

text \<open>
  C6 as stated fails: the enclave factory raises, and the exception leaves
  \<^verbatim>\<open>verify_block\<close> instead of a Boolean.
\<close>

theorem enclave_failure_propagates_counterexample:
  "fst (verify_block env_no_enclave (blk ''b1'' ''pk-alice'' ''cert-2'' ''root-2'') state0)
     = Inl (OtherException ''enclave unavailable'') \<and>
   (\<nexists>b. fst (verify_block env_no_enclave (blk ''b1'' ''pk-alice'' ''cert-2'' ''root-2'')
               state0) = Inr b)"
  by (simp add: method_defs input_defs env_no_enclave_def)

section \<open>The state after the call\<close>

lemma framed_refl: "framed ro s s"
  by (simp add: framed_def)

lemma framed_trans: "framed ro s s' \<Longrightarrow> framed ro s' s'' \<Longrightarrow> framed ro s s''"
  by (auto simp: framed_def)

lemma framed_emit: "framed ro s (emit lvl msg s)"
  by (simp add: framed_def emit_def)

lemma framed_call:
  "(ro \<Longrightarrow> snd (f (world s)) = world s) \<Longrightarrow> framed ro s (snd (call f s))"
  by (auto simp: framed_def call_def)

lemma framed_and_then:
  assumes "framed ro s (snd m)"
    and "\<And>x. framed ro s (snd m) \<Longrightarrow> framed ro (snd m) (snd (k x (snd m)))"
  shows "framed ro s (snd (and_then m k))"
proof (cases "fst m")
  case (Inl e)
  with assms(1) show ?thesis by (simp add: and_then_def)
next
  case (Inr x)
  from assms(1) assms(2) [OF assms(1), of x] have "framed ro s (snd (k x (snd m)))"
    by (rule framed_trans)
  with Inr show ?thesis by (simp add: and_then_def)
qed

lemma framed_handle_attempt: "framed ro (snd a) (snd (handle_attempt a))"
proof (cases a)
  case (Pair r s)
  show ?thesis
  proof (cases r)
    case (Inl x)
    with Pair show ?thesis
      by (cases x) (auto simp: framed_def emit_def)
  next
    case (Inr u)
    with Pair show ?thesis by (simp add: framed_refl)
  qed
qed

lemma framed_attempt:
  "self s = slf \<Longrightarrow>
   framed (read_only E slf) s (snd (verification_attempt E bw sv em s))"
  unfolding verification_attempt_def
  apply (rule framed_and_then)
   apply (rule framed_call, simp add: read_only_def)
  apply (rule framed_and_then)
   apply (rule framed_trans [OF framed_emit])
   apply (rule framed_call)
   apply (simp add: read_only_def assemble_certificates_def emit_def)
  apply (rule framed_and_then)
   apply (rule framed_call, simp add: read_only_def)
  apply (rule framed_and_then)
   apply (rule framed_call, simp add: read_only_def)
  apply (simp add: framed_refl)
  done

lemma framed_verify_with_view:
  "self s = slf \<Longrightarrow> framed (read_only E slf) s (snd (verify_with_view E bw sv s))"
  unfolding verify_with_view_def
  apply (rule framed_and_then)
   apply (rule framed_call, simp add: read_only_def)
  apply (rule framed_and_then)
   apply (rule framed_call, simp add: read_only_def)
  apply (simp add: framed_emit)
  apply (intro impI)
  apply (rule framed_trans [OF framed_attempt framed_handle_attempt])
  apply (simp add: framed_def)
  done

lemma framed_lookup:
  "self s = slf \<Longrightarrow> framed (read_only E slf) s (snd (lookup_previous_block bw s))"
  unfolding lookup_previous_block_def
  by (simp, rule framed_call) (simp add: read_only_def)

lemma framed_verify_block:
  "framed (read_only E (self s)) s (snd (verify_block E bw s))"
  unfolding verify_block_def
  apply (rule framed_and_then)
   apply (rule framed_lookup, rule refl)
  apply (rule framed_and_then)
   apply (rule framed_call, simp add: read_only_def framed_def)
  apply (rule framed_verify_with_view)
  apply (simp add: framed_def)
  done

text \<open>
  C10, as the code has it: \<^verbatim>\<open>verify_block\<close> writes nothing of its own but log
  records. After the call, whatever it returned or raised, the verifier object is the
  one before the call (its block cache, its state view factory and its data directory),
  and the log is the log before the call with records appended to it. The shared state,
  the blocks of the cache included, is what the collaborators' calls have left: it is
  the shared state before the call when the verifier's objects and the collaborators
  are read-only.
\<close>

theorem verify_block_frame:
  "self (snd (verify_block E bw s)) = self s \<and>
   (\<exists>new. log_records (snd (verify_block E bw s)) = log_records s @ new) \<and>
   (read_only E (self s) \<longrightarrow> world (snd (verify_block E bw s)) = world s)"
  using framed_verify_block [of E s bw] by (simp add: framed_def)

theorem verify_block_frame_witness:
  "read_only env0 (self state0) \<and>
   self (snd (verify_block env0 (blk ''b1'' ''pk-alice'' ''cert-2'' ''root-2'') state0))
     = self state0 \<and>
   world (snd (verify_block env0 (blk ''b1'' ''pk-alice'' ''cert-2'' ''root-2'') state0))
     = world state0 \<and>
   log_records (snd (verify_block env0 (blk ''b1'' ''pk-alice'' ''cert-2'' ''root-2'') state0))
     = log_records state0 @ [(DEBUG, signer_message alice)]"
proof -
  let ?bw = "blk ''b1'' ''pk-alice'' ''cert-2'' ''root-2''"
  have ro: "read_only env0 (self state0)"
    by (simp add: read_only_def input_defs split: option.splits)
  have lg: "log_records (snd (verify_block env0 ?bw state0))
              = log_records state0 @ [(DEBUG, signer_message alice)]"
    by (simp add: method_defs input_defs)
  from verify_block_frame [of env0 ?bw state0] ro lg show ?thesis
    by simp
qed

text \<open>
  C10 as stated fails: the enclave factory initialises its module on first use, and the
  shared state after \<^verbatim>\<open>verify_block\<close> is not the shared state before it.
\<close>

theorem lazy_enclave_changes_shared_state_counterexample:
  "world state0 = 0 \<and>
   fst (verify_block env_lazy_enclave (blk ''b1'' ''pk-alice'' ''cert-2'' ''root-2'') state0)
     = Inr True \<and>
   world (snd (verify_block env_lazy_enclave (blk ''b1'' ''pk-alice'' ''cert-2'' ''root-2'')
                 state0)) = 1 \<and>
   world (snd (verify_block env_lazy_enclave (blk ''b1'' ''pk-alice'' ''cert-2'' ''root-2'')
                 state0)) \<noteq> world state0"
  by (simp add: method_defs input_defs env_lazy_enclave_def)

section \<open>The state root hash of the verification context\<close>

text \<open>
  C5: when the block cache returns the previous block, \<^verbatim>\<open>create_view\<close> is called with
  the previous block's state root hash, and when the cache raises \<^verbatim>\<open>KeyError\<close> for
  it, \<^verbatim>\<open>create_view\<close> is called with the candidate's own state root hash. The outcome
  of that call is the context of the verification: an exception of it leaves the method,
  and the state view it returns is the one the rest of the method runs with.
\<close>

theorem context_state_root_hash_choice:
  assumes "call (block_cache (self s) (previous_block_id bw)) s = (rc, s1)"
    and "rc = Inr p \<and> h = state_root_hash p \<or>
         (\<exists>m. rc = Inl (KeyError m)) \<and> h = state_root_hash bw"
    and "call (state_view_factory (self s1) h) s1 = (rv, s2)"
  shows "verify_block E bw s =
           (case rv of
              Inl e \<Rightarrow> (Inl e, s2)
            | Inr state_view \<Rightarrow> verify_with_view E bw state_view s2)"
proof -
  from assms(1,2)
  have "lookup_previous_block bw s = (Inr (Some p), s1) \<and> h = state_root_hash p \<or>
        lookup_previous_block bw s = (Inr None, s1) \<and> h = state_root_hash bw"
    by (auto simp: lookup_previous_block_def)
  then obtain prev where l: "lookup_previous_block bw s = (Inr prev, s1)"
    and h: "context_state_root_hash prev bw = h"
    by (auto simp: context_state_root_hash_def)
  from l h assms(3) show ?thesis
    by (cases rv) (simp_all add: verify_block_def and_then_Inr and_then_Inl)
qed

theorem context_state_root_hash_choice_witness:
  "verify_block env0 (blk ''b1'' ''pk-alice'' ''cert-2'' ''root-2'') (serving_only ''root-1'') =
     verify_with_view env0 (blk ''b1'' ''pk-alice'' ''cert-2'' ''root-2'') ''root-1''
       (serving_only ''root-1'') \<and>
   fst (verify_block env0 (blk ''b1'' ''pk-alice'' ''cert-2'' ''root-2'')
          (serving_only ''root-1'')) = Inr True \<and>
   fst (verify_block env0 (blk ''b1'' ''pk-alice'' ''cert-2'' ''root-2'')
          (serving_only ''root-2'')) = Inl (OtherException ''unknown state root'') \<and>
   fst (verify_block env0 (blk ''b7'' ''pk-alice'' ''cert-8'' ''root-8'')
          (serving_only ''root-8'')) = Inr True \<and>
   fst (verify_block env0 (blk ''b7'' ''pk-alice'' ''cert-8'' ''root-8'')
          (serving_only ''root-1'')) = Inl (OtherException ''unknown state root'')"
proof -
  let ?b2 = "blk ''b1'' ''pk-alice'' ''cert-2'' ''root-2''"
  let ?p = "blk ''b0'' ''pk-alice'' ''cert-1'' ''root-1''"
  let ?s = "serving_only ''root-1''"
  have h1: "call (block_cache (self ?s) (previous_block_id ?b2)) ?s = (Inr ?p, ?s)"
    by (simp add: method_defs input_defs serving_only_def)
  have h2: "Inr ?p = Inr ?p \<and> ''root-1'' = state_root_hash ?p \<or>
            (\<exists>m. Inr ?p = Inl (KeyError m)) \<and> ''root-1'' = state_root_hash ?b2"
    by (simp add: blk_def)
  have h3: "call (state_view_factory (self ?s) ''root-1'') ?s = (Inr ''root-1'', ?s)"
    by (simp add: method_defs input_defs serving_only_def)
  from context_state_root_hash_choice [OF h1 h2 h3, of env0]
  have "verify_block env0 ?b2 ?s = verify_with_view env0 ?b2 ''root-1'' ?s"
    by simp
  then show ?thesis
    by (simp add: method_defs input_defs serving_only_def)
qed

section \<open>The certificate sample\<close>

lemma certificate_walk_length:
  "length (certificate_walk pc em cache b n) \<le> n"
  by (induction n arbitrary: b) (auto split: option.splits)

lemma certificate_walk_ancestors:
  "map (pc em) (take (length (certificate_walk pc em cache b n)) (ancestors cache b n)) =
     map Some (certificate_walk pc em cache b n)"
  by (induction n arbitrary: b) (auto split: option.splits)

lemma certificate_walk_le_ancestors:
  "length (certificate_walk pc em cache b n) \<le> length (ancestors cache b n)"
  by (induction n arbitrary: b) (auto split: option.splits)

lemma ancestors_mono:
  "n \<le> k \<Longrightarrow> length (ancestors cache b n) \<le> length (ancestors cache b k)"
proof (induction n arbitrary: b k)
  case 0
  then show ?case by simp
next
  case (Suc n)
  then obtain k' where k: "k = Suc k'" and le: "n \<le> k'"
    by (cases k) auto
  show ?case
  proof (cases "cache b")
    case None
    then show ?thesis by (simp add: k)
  next
    case (Some blk0)
    with Suc.IH [OF le] show ?thesis by (simp add: k)
  qed
qed

lemma cache_mapping_dict: "cache_mapping (dict_getitem d) w = d"
  by (rule ext) (simp add: cache_mapping_def dict_getitem_def returns_def raises_def
      split: option.splits)

text \<open>
  C7, for the builder of the specification called as \<^verbatim>\<open>verify_block\<close> calls it (with
  the header of the candidate, the verifier's block cache and the certificate sample
  length): the call returns a sample that has at most \<open>certificate_sample_length\<close>
  entries and at most as many entries as there are ancestors available from the
  candidate's predecessor; its entries are, in order, the certificates of the first of
  these ancestors, the predecessor first; and it is the same sample whatever the
  candidate's own consensus payload is.
\<close>

theorem certificate_sample_bounded:
  assumes "build_certificate_list E = spec_build_certificate_list pc"
  shows "\<exists>cs. assemble_certificates E slf bw em w = (Inr cs, w) \<and>
           length cs \<le> certificate_sample_length E \<and>
           (\<forall>k. certificate_sample_length E \<le> k \<longrightarrow>
              length cs \<le>
                length (ancestors (cache_mapping (block_cache slf) w)
                          (hdr_previous_block_id (header bw)) k)) \<and>
           map (pc em)
             (take (length cs)
                (ancestors (cache_mapping (block_cache slf) w)
                   (hdr_previous_block_id (header bw))
                   (certificate_sample_length E))) = map Some cs \<and>
           (\<forall>payload.
              assemble_certificates E slf
                (bw\<lparr>header := (header bw)\<lparr>consensus := payload\<rparr>\<rparr>) em w = (Inr cs, w))"
proof -
  let ?n = "certificate_sample_length E"
  let ?p = "hdr_previous_block_id (header bw)"
  let ?c = "cache_mapping (block_cache slf) w"
  let ?cs = "certificate_walk pc em ?c ?p ?n"
  have a: "assemble_certificates E slf bw em w = (Inr ?cs, w)"
    by (simp add: assemble_certificates_def assms spec_build_certificate_list_def)
  have b: "length ?cs \<le> ?n"
    by (rule certificate_walk_length)
  have c: "length ?cs \<le> length (ancestors ?c ?p k)" if "?n \<le> k" for k
    using certificate_walk_le_ancestors [of pc em ?c ?p ?n] ancestors_mono [OF that, of ?c ?p]
    by (rule order_trans)
  have d: "map (pc em) (take (length ?cs) (ancestors ?c ?p ?n)) = map Some ?cs"
    by (rule certificate_walk_ancestors)
  have e: "assemble_certificates E slf (bw\<lparr>header := (header bw)\<lparr>consensus := payload\<rparr>\<rparr>) em w
             = (Inr ?cs, w)" for payload
    by (simp add: assemble_certificates_def assms spec_build_certificate_list_def)
  from a b c d e show ?thesis
    by blast
qed

theorem certificate_sample_bounded_witness:
  "build_certificate_list env_spec = spec_build_certificate_list payload_cert \<and>
   assemble_certificates env_spec verifier_chain
     (blk ''c3'' ''pk-alice'' ''cert-4'' ''root-1'') () 0 = (Inr [''cert-3'', ''cert-2''], 0) \<and>
   certificate_sample_length env_spec = 2 \<and>
   ancestors (cache_mapping (block_cache verifier_chain) 0)
     (hdr_previous_block_id (header (blk ''c3'' ''pk-alice'' ''cert-4'' ''root-1''))) 3 =
     [blk ''c2'' ''pk-alice'' ''cert-3'' ''root-1'', blk ''c1'' ''pk-alice'' ''cert-2'' ''root-1'',
      blk ''c0'' ''pk-alice'' [] ''root-1''] \<and>
   (\<exists>cs. assemble_certificates env_spec verifier_chain
            (blk ''c3'' ''pk-alice'' ''cert-4'' ''root-1'') () 0 = (Inr cs, 0) \<and>
          length cs \<le> 2 \<and>
          assemble_certificates env_spec verifier_chain
            (blk ''c3'' ''pk-alice'' ''another payload'' ''root-1'') () 0 = (Inr cs, 0))"
proof -
  let ?bw = "blk ''c3'' ''pk-alice'' ''cert-4'' ''root-1''"
  have h: "build_certificate_list env_spec = spec_build_certificate_list payload_cert"
    by (simp add: env_spec_def)
  have n: "certificate_sample_length env_spec = 2"
    by (simp add: env_spec_def)
  have m: "cache_mapping (block_cache verifier_chain) (0::nat) = chain_cache"
    by (simp add: verifier_chain_def cache_mapping_dict)
  have a: "assemble_certificates env_spec verifier_chain ?bw () 0
             = (Inr [''cert-3'', ''cert-2''], 0)"
    by (simp add: assemble_certificates_def h n spec_build_certificate_list_def m)
      (simp add: chain_cache_def payload_cert_def blk_def numeral_2_eq_2)
  have anc: "ancestors (cache_mapping (block_cache verifier_chain) 0)
               (hdr_previous_block_id (header ?bw)) 3 =
      [blk ''c2'' ''pk-alice'' ''cert-3'' ''root-1'', blk ''c1'' ''pk-alice'' ''cert-2'' ''root-1'',
       blk ''c0'' ''pk-alice'' [] ''root-1'']"
    by (simp add: m) (simp add: chain_cache_def blk_def numeral_3_eq_3)
  have p: "?bw\<lparr>header := (header ?bw)\<lparr>consensus := ''another payload''\<rparr>\<rparr> =
             blk ''c3'' ''pk-alice'' ''another payload'' ''root-1''"
    by (simp add: blk_def)
  from certificate_sample_bounded [OF h, of verifier_chain ?bw "()" 0]
  obtain cs where cs: "assemble_certificates env_spec verifier_chain ?bw () 0 = (Inr cs, 0)"
    and len: "length cs \<le> certificate_sample_length env_spec"
    and indep: "\<forall>payload. assemble_certificates env_spec verifier_chain
                  (?bw\<lparr>header := (header ?bw)\<lparr>consensus := payload\<rparr>\<rparr>) () 0 = (Inr cs, 0)"
    by blast
  from indep have "assemble_certificates env_spec verifier_chain
      (?bw\<lparr>header := (header ?bw)\<lparr>consensus := ''another payload''\<rparr>\<rparr>) () 0 = (Inr cs, 0)"
    by (rule spec)
  with p have other: "assemble_certificates env_spec verifier_chain
      (blk ''c3'' ''pk-alice'' ''another payload'' ''root-1'') () 0 = (Inr cs, 0)"
    by simp
  from cs len other n have "\<exists>cs. assemble_certificates env_spec verifier_chain ?bw () 0
        = (Inr cs, 0) \<and>
      length cs \<le> 2 \<and>
      assemble_certificates env_spec verifier_chain
        (blk ''c3'' ''pk-alice'' ''another payload'' ''root-1'') () 0 = (Inr cs, 0)"
    by auto
  with h a n anc show ?thesis
    by (intro conjI)
qed

end
